theory Spec2Isabelle
  imports Complex_Main "HOL-Library.Word"
begin

section \<open>Python values used by the modules\<close>

text \<open>
  Python floats are modelled as exact reals: rounding is not part of the model, so every
  comparison and every formula below is the one the source writes, computed exactly.
  A temporal level reaches the code either as a Python \<open>int\<close> or as a Python \<open>float\<close>;
  \<open>isinstance(temporal_level, float)\<close> tells them apart, so the model keeps the tag.
  A Python \<open>str\<close> is a \<open>string\<close> holding its UTF-8 bytes; the theory only compares
  strings, concatenates them and asks whether they are empty.
\<close>

datatype pynum = PyInt int | PyFloat real

datatype py_error = KeyError

fun num_value :: "pynum \<Rightarrow> real" where
  "num_value (PyInt k) = of_int k"
| "num_value (PyFloat x) = x"

definition py_int :: "real \<Rightarrow> int" where
  \<comment> \<open>\<open>int(x)\<close> on a number: truncation toward zero.\<close>
  "py_int x = (if 0 \<le> x then \<lfloor>x\<rfloor> else \<lceil>x\<rceil>)"

definition py_mod1 :: "real \<Rightarrow> real" where
  \<comment> \<open>\<open>x % 1\<close> on a float: the result takes the sign of the divisor.\<close>
  "py_mod1 x = x - of_int \<lfloor>x\<rfloor>"

fun dict_get :: "(int \<rightharpoonup> 'v) \<Rightarrow> pynum \<Rightarrow> 'v option" where
  \<comment> \<open>\<open>d.get(key)\<close> on a dict with int keys: a float key finds the entry of the int it
      equals (equal numbers hash alike), any other float finds nothing.\<close>
  "dict_get d (PyInt k) = d k"
| "dict_get d (PyFloat x) = (if x = of_int \<lfloor>x\<rfloor> then d \<lfloor>x\<rfloor> else None)"

definition subscript :: "(int \<rightharpoonup> 'v) \<Rightarrow> int \<Rightarrow> py_error + 'v" where
  \<comment> \<open>\<open>d[k]\<close> raises KeyError on a missing key.\<close>
  "subscript d k = (case d k of None \<Rightarrow> Inl KeyError | Some v \<Rightarrow> Inr v)"


section \<open>epochs.py\<close>

record VisualParams =
  sepia :: real
  blur :: real
  noise :: real
  vignette :: real
  saturation :: real
  contrast :: real
  fade :: real

record Epoch =
  level :: int
  name :: string
  name_en :: string
  period :: string
  description :: string
  description_en :: string
  visual :: VisualParams
  soundscape :: "string list"
  soundscape_en :: "string list"
  audio_prompt :: string

definition epoch_0 :: Epoch where
  "epoch_0 = \<lparr>
      level = 0,
      name = ''Pr'' @ [CHR 0xC3, CHR 0xA9] @ ''sent'',
      name_en = ''Present'',
      period = ''2020-2025'',
      description = ''Net, couleurs vives, le monde tel qu'' @ [CHR 0x27] @ ''il est'',
      description_en = ''Clear, vivid colors, the world as it is'',
      visual = \<lparr>sepia = 0, blur = 0, noise = 0, vignette = 0, saturation = 1, contrast = 1, fade = 0\<rparr>,
      soundscape = [
        ''Trafic urbain moderne'',
        ''Notifications de smartphones'',
        ''Trottinettes '' @ [CHR 0xC3, CHR 0xA9] @ ''lectriques'',
        ''Conversations en plusieurs langues''],
      soundscape_en = [
        ''Modern urban traffic'',
        ''Smartphone notifications'',
        ''Electric scooters'',
        ''Multilingual conversations''],
      audio_prompt =
        ''Modern city ambiance with car traffic, smartphone notification sounds, electric scooter whirring, and multilingual street conversations''\<rparr>"

definition epoch_1 :: Epoch where
  "epoch_1 = \<lparr>
      level = 1,
      name = ''M'' @ [CHR 0xC3, CHR 0xA9] @ ''moire r'' @ [CHR 0xC3, CHR 0xA9] @ ''cente'',
      name_en = ''Recent Memory'',
      period = ''1990-2010'',
      description = ''L'' @ [CHR 0xC3, CHR 0xA9] @ ''g'' @ [CHR 0xC3, CHR 0xA8] @ ''rement voil'' @ [CHR 0xC3, CHR 0xA9] @ '', teinte de nostalgie'',
      description_en = ''Slightly veiled, tinted with nostalgia'',
      visual = \<lparr>sepia = 0.15, blur = 0.5, noise = 0.05, vignette = 0.1, saturation = 0.9, contrast = 0.95, fade = 0.05\<rparr>,
      soundscape = [
        ''Moteurs de voitures plus anciens'',
        ''Walkman et baladeurs CD'',
        ''Cabines t'' @ [CHR 0xC3, CHR 0xA9] @ ''l'' @ [CHR 0xC3, CHR 0xA9] @ ''phoniques'',
        ''Sonneries de t'' @ [CHR 0xC3, CHR 0xA9] @ ''l'' @ [CHR 0xC3, CHR 0xA9] @ ''phones fixes''],
      soundscape_en = [
        ''Older car engines'',
        ''Walkman and CD players'',
        ''Phone booths'',
        ''Landline phone ringtones''],
      audio_prompt =
        ''1990s-2000s urban ambiance with older car engines, faint music from portable CD players, phone booth sounds, and rotary phone ringing in distance''\<rparr>"

definition epoch_2 :: Epoch where
  "epoch_2 = \<lparr>
      level = 2,
      name = ''G'' @ [CHR 0xC3, CHR 0xA9] @ ''n'' @ [CHR 0xC3, CHR 0xA9] @ ''ration pr'' @ [CHR 0xC3, CHR 0xA9] @ ''c'' @ [CHR 0xC3, CHR 0xA9] @ ''dente'',
      name_en = ''Previous Generation'',
      period = ''1960-1985'',
      description = ''Teintes dor'' @ [CHR 0xC3, CHR 0xA9] @ ''es, grain de film argentique'',
      description_en = ''Golden tints, silver film grain'',
      visual = \<lparr>sepia = 0.3, blur = 1, noise = 0.12, vignette = 0.2, saturation = 0.75, contrast = 0.9, fade = 0.1\<rparr>,
      soundscape = [
        ''Moteurs de 2CV et DS'',
        ''Postes de radio '' @ [CHR 0xC3, CHR 0xA0] @ '' transistors'',
        ''Accord'' @ [CHR 0xC3, CHR 0xA9] @ ''on dans les caf'' @ [CHR 0xC3, CHR 0xA9] @ ''s'',
        ''Cloches d'' @ [CHR 0x27, CHR 0xC3, CHR 0xA9] @ ''glises'',
        ''Marchands ambulants''],
      soundscape_en = [
        ''Citro'' @ [CHR 0xC3, CHR 0xAB] @ ''n 2CV and DS engines'',
        ''Transistor radios'',
        ''Accordion in caf'' @ [CHR 0xC3, CHR 0xA9] @ ''s'',
        ''Church bells'',
        ''Street vendors''],
      audio_prompt =
        ''1960s-70s French atmosphere with vintage Citro'' @ [CHR 0xC3, CHR 0xAB] @ ''n engines, transistor radio playing chanson fran'' @ [CHR 0xC3, CHR 0xA7] @ ''aise, distant accordion music, church bells, and street vendor calls''\<rparr>"

definition epoch_3 :: Epoch where
  "epoch_3 = \<lparr>
      level = 3,
      name = ''L'' @ [CHR 0x27] @ ''entre-deux-guerres'',
      name_en = ''Interwar Period'',
      period = ''1920-1955'',
      description = ''Noir et blanc fantomatique, pr'' @ [CHR 0xC3, CHR 0xA9] @ ''sences floues'',
      description_en = ''Ghostly black and white, blurred presences'',
      visual = \<lparr>sepia = 0.5, blur = 1.5, noise = 0.2, vignette = 0.35, saturation = 0.5, contrast = 0.85, fade = 0.2\<rparr>,
      soundscape = [
        ''Sabots de chevaux sur pav'' @ [CHR 0xC3, CHR 0xA9] @ ''s'',
        ''Tramways '' @ [CHR 0xC3, CHR 0xA9] @ ''lectriques'',
        ''R'' @ [CHR 0xC3, CHR 0xA9] @ ''verb'' @ [CHR 0xC3, CHR 0xA8] @ ''res '' @ [CHR 0xC3, CHR 0xA0] @ '' gaz qui gr'' @ [CHR 0xC3, CHR 0xA9] @ ''sillent'',
        ''Crieur de journaux'',
        ''Jazz lointain''],
      soundscape_en = [
        ''Horse hooves on cobblestones'',
        ''Electric tramways'',
        ''Gas street lamps hissing'',
        ''Newspaper criers'',
        ''Distant jazz music''],
      audio_prompt =
        ''1920s-40s urban soundscape with horse hooves on cobblestones, electric tramway bells, gas lamp hissing, newspaper boy shouting headlines, and distant jazz from a caf'' @ [CHR 0xC3, CHR 0xA9]\<rparr>"

definition epoch_4 :: Epoch where
  "epoch_4 = \<lparr>
      level = 4,
      name = ''La Belle '' @ [CHR 0xC3, CHR 0x89] @ ''poque'',
      name_en = ''Belle '' @ [CHR 0xC3, CHR 0x89] @ ''poque'',
      period = ''1880-1914'',
      description = ''S'' @ [CHR 0xC3, CHR 0xA9] @ ''pia prononc'' @ [CHR 0xC3, CHR 0xA9] @ '', silhouettes en crinolines'',
      description_en = ''Pronounced sepia, silhouettes in crinolines'',
      visual = \<lparr>sepia = 0.7, blur = 2, noise = 0.25, vignette = 0.45, saturation = 0.3, contrast = 0.8, fade = 0.3\<rparr>,
      soundscape = [
        ''Cal'' @ [CHR 0xC3, CHR 0xA8] @ ''ches et fiacres'',
        ''Crieurs des rues'',
        ''Caf'' @ [CHR 0xC3, CHR 0xA9] @ ''-concerts'',
        ''Orgues de Barbarie'',
        ''Fontaines publiques''],
      soundscape_en = [
        ''Horse-drawn carriages'',
        ''Street criers'',
        ''Caf'' @ [CHR 0xC3, CHR 0xA9] @ ''-concerts'',
        ''Barrel organs'',
        ''Public fountains''],
      audio_prompt =
        ''1880s-1900s Belle '' @ [CHR 0xC3, CHR 0x89] @ ''poque ambiance with horse carriages, street vendors singing their wares, distant caf'' @ [CHR 0xC3, CHR 0xA9] @ ''-concert music, barrel organ melody, and fountain splashing''\<rparr>"

definition epoch_5 :: Epoch where
  "epoch_5 = \<lparr>
      level = 5,
      name = ''Le XIXe si'' @ [CHR 0xC3, CHR 0xA8] @ ''cle'',
      name_en = ''19th Century'',
      period = ''1820-1870'',
      description = ''Image de daguerr'' @ [CHR 0xC3, CHR 0xA9] @ ''otype, dissolution des formes'',
      description_en = ''Daguerreotype image, dissolving forms'',
      visual = \<lparr>sepia = 0.85, blur = 3, noise = 0.35, vignette = 0.6, saturation = 0.15, contrast = 0.7, fade = 0.45\<rparr>,
      soundscape = [
        ''Travaux haussmanniens'',
        ''Forgerons et mar'' @ [CHR 0xC3, CHR 0xA9] @ ''chaux-ferrants'',
        ''Cloches multiples'',
        ''Chants de travailleurs'',
        ''Vent dans les ruelles''],
      soundscape_en = [
        ''Haussmann construction work'',
        ''Blacksmiths and farriers'',
        ''Multiple church bells'',
        ''Workers'' @ [CHR 0x27] @ '' songs'',
        ''Wind in alleyways''],
      audio_prompt =
        ''Mid-1800s soundscape with distant construction hammering, blacksmith anvil strikes, overlapping church bells, workers singing, and wind whistling through narrow streets''\<rparr>"

definition epoch_6 :: Epoch where
  "epoch_6 = \<lparr>
      level = 6,
      name = ''Les temps anciens'',
      name_en = ''Ancient Times'',
      period = ''Avant 1820'',
      description = ''Presque invisible, aux limites de la perception'',
      description_en = ''Almost invisible, at the limits of perception'',
      visual = \<lparr>sepia = 0.95, blur = 5, noise = 0.5, vignette = 0.75, saturation = 0.05, contrast = 0.5, fade = 0.7\<rparr>,
      soundscape = [
        ''Cloches m'' @ [CHR 0xC3, CHR 0xA9] @ ''di'' @ [CHR 0xC3, CHR 0xA9] @ ''vales lointaines'',
        ''March'' @ [CHR 0xC3, CHR 0xA9] @ ''s anciens'',
        ''Vent dans les pierres'',
        ''Murmures indistincts'',
        ''Silence profond''],
      soundscape_en = [
        ''Distant medieval bells'',
        ''Ancient markets'',
        ''Wind through stones'',
        ''Indistinct murmurs'',
        ''Deep silence''],
      audio_prompt =
        ''Pre-1820 ancient atmosphere with very distant medieval church bells, faint market murmurs, wind through old stone buildings, indistinct whispered voices, and profound silence between sounds''\<rparr>"

definition EPOCHS_items :: "(int \<times> Epoch) list" where
  "EPOCHS_items =
     [(0, epoch_0), (1, epoch_1), (2, epoch_2), (3, epoch_3),
      (4, epoch_4), (5, epoch_5), (6, epoch_6)]"

definition EPOCHS :: "int \<rightharpoonup> Epoch" where
  "EPOCHS = map_of EPOCHS_items"

definition get_epoch_by_level :: "pynum \<Rightarrow> Epoch option" where
  "get_epoch_by_level lv = dict_get EPOCHS lv"

definition get_epoch_params :: "pynum \<Rightarrow> VisualParams option" where
  "get_epoch_params lv =
     (case dict_get EPOCHS lv of None \<Rightarrow> None | Some epoch \<Rightarrow> Some (visual epoch))"

definition lerp :: "real \<Rightarrow> real \<Rightarrow> real \<Rightarrow> real" where
  "lerp a b t = a + (b - a) * t"

definition interpolate_epochs :: "real \<Rightarrow> py_error + VisualParams" where
  "interpolate_epochs lv =
     (let lv' = max 0 (min 6 lv);
          lower = py_int lv';
          upper = min (lower + 1) 6;
          t = lv' - of_int lower
      in case subscript EPOCHS lower of
           Inl e \<Rightarrow> Inl e
         | Inr e1 \<Rightarrow>
             (case subscript EPOCHS upper of
                Inl e \<Rightarrow> Inl e
              | Inr e2 \<Rightarrow>
                  (let p1 = visual e1; p2 = visual e2
                   in Inr \<lparr>sepia = lerp (sepia p1) (sepia p2) t,
                            blur = lerp (blur p1) (blur p2) t,
                            noise = lerp (noise p1) (noise p2) t,
                            vignette = lerp (vignette p1) (vignette p2) t,
                            saturation = lerp (saturation p1) (saturation p2) t,
                            contrast = lerp (contrast p1) (contrast p2) t,
                            fade = lerp (fade p1) (fade p2) t\<rparr>)))"


section \<open>Images, arrays and the library operations visual.py calls\<close>

text \<open>
  A Pillow image has a mode, a size and one byte per band and pixel. A numpy array built
  from an image has shape (rows, cols, bands); \<open>elem a y x\<close> is the band vector of row
  \<open>y\<close> and column \<open>x\<close>. \<open>dtype=np.float32\<close> is a real here.
\<close>

datatype mode = L | RGB | RGBA

record image =
  mode :: mode
  width :: nat
  height :: nat
  getpixel :: "nat \<Rightarrow> nat \<Rightarrow> 8 word list"

record 'a ndarray =
  rows :: nat
  cols :: nat
  bands :: nat
  elem :: "nat \<Rightarrow> nat \<Rightarrow> 'a list"

fun mode_bands :: "mode \<Rightarrow> nat" where
  "mode_bands L = 1"
| "mode_bands RGB = 3"
| "mode_bands RGBA = 4"

definition np_array :: "image \<Rightarrow> real ndarray" where
  \<comment> \<open>\<open>np.array(image, dtype=np.float32)\<close>\<close>
  "np_array im =
     \<lparr>rows = height im, cols = width im, bands = mode_bands (mode im),
      elem = (\<lambda>y x. map (\<lambda>c. real (unat c)) (getpixel im x y))\<rparr>"

definition fromarray :: "8 word ndarray \<Rightarrow> image" where
  \<comment> \<open>\<open>Image.fromarray\<close> on a uint8 array: the last axis decides the mode.\<close>
  "fromarray a =
     \<lparr>mode = (if bands a = 3 then RGB else if bands a = 4 then RGBA else L),
      width = cols a, height = rows a, getpixel = (\<lambda>x y. elem a y x)\<rparr>"

definition np_clip :: "real \<Rightarrow> real \<Rightarrow> real \<Rightarrow> real" where
  "np_clip v lo hi = min (max v lo) hi"

definition astype_uint8 :: "real \<Rightarrow> 8 word" where
  \<comment> \<open>\<open>.astype(np.uint8)\<close> drops the fraction; the stages clip to [0, 255] first.\<close>
  "astype_uint8 v = word_of_int (py_int v)"

definition arr_map :: "('a \<Rightarrow> 'b) \<Rightarrow> 'a ndarray \<Rightarrow> 'b ndarray" where
  \<comment> \<open>an elementwise operation with a scalar\<close>
  "arr_map f a =
     \<lparr>rows = rows a, cols = cols a, bands = bands a, elem = (\<lambda>y x. map f (elem a y x))\<rparr>"

definition arr_map2 :: "('a \<Rightarrow> 'b \<Rightarrow> 'c) \<Rightarrow> 'a ndarray \<Rightarrow> 'b ndarray \<Rightarrow> 'c ndarray" where
  \<comment> \<open>an elementwise operation of two arrays of one shape\<close>
  "arr_map2 f a b =
     \<lparr>rows = rows a, cols = cols a, bands = bands a,
      elem = (\<lambda>y x. map2 f (elem a y x) (elem b y x))\<rparr>"

definition arr_vec :: "('a \<Rightarrow> 'b \<Rightarrow> 'c) \<Rightarrow> 'a ndarray \<Rightarrow> 'b list \<Rightarrow> 'c ndarray" where
  \<comment> \<open>an elementwise operation with a vector broadcast along the last axis\<close>
  "arr_vec f a v =
     \<lparr>rows = rows a, cols = cols a, bands = bands a, elem = (\<lambda>y x. map2 f (elem a y x) v)\<rparr>"

definition dot :: "real list \<Rightarrow> real list \<Rightarrow> real" where
  "dot u v = sum_list (map2 (*) u v)"

definition matmul_T :: "real ndarray \<Rightarrow> real list list \<Rightarrow> real ndarray" where
  \<comment> \<open>\<open>a @ m.T\<close>: band \<open>j\<close> of a pixel is the product of the pixel with row \<open>j\<close> of \<open>m\<close>.\<close>
  "matmul_T a m =
     \<lparr>rows = rows a, cols = cols a, bands = length m,
      elem = (\<lambda>y x. map (dot (elem a y x)) m)\<rparr>"

definition linspace :: "real \<Rightarrow> real \<Rightarrow> nat \<Rightarrow> nat \<Rightarrow> real" where
  \<comment> \<open>\<open>np.linspace(a, b, n)[i]\<close>\<close>
  "linspace a b n i = (if n = 1 then a else a + of_nat i * ((b - a) / of_nat (n - 1)))"

text \<open>
  Pillow's filters and numpy's random generator are not part of the repository. They are
  parameters of the model: \<open>convert\<close> is \<open>Image.convert\<close>, \<open>GaussianBlur\<close> is
  \<open>image.filter(ImageFilter.GaussianBlur(radius))\<close>, \<open>enhance_Color\<close> and \<open>enhance_Contrast\<close> are
  \<open>ImageEnhance.Color(image).enhance(factor)\<close> and its Contrast sibling, and
  \<open>normal scale (rows, cols, bands)\<close> is the array \<open>np.random.normal(0, scale, shape)\<close>
  returns in the call at hand.
\<close>

record externals =
  convert :: "image \<Rightarrow> mode \<Rightarrow> image"
  GaussianBlur :: "image \<Rightarrow> real \<Rightarrow> image"
  enhance_Color :: "image \<Rightarrow> real \<Rightarrow> image"
  enhance_Contrast :: "image \<Rightarrow> real \<Rightarrow> image"
  normal :: "real \<Rightarrow> nat \<times> nat \<times> nat \<Rightarrow> real ndarray"


section \<open>processors/visual.py\<close>

text \<open>
  The private stage methods are called by \<open>process\<close> on RGB images only. On an array
  whose last axis is not 3 numpy rejects the matrix product and the broadcasts; the model
  does not represent that, and every statement about a stage is about three-band pixels.
\<close>

definition sepia_matrix :: "real list list" where
  "sepia_matrix =
     [[0.393, 0.769, 0.189],
      [0.349, 0.686, 0.168],
      [0.272, 0.534, 0.131]]"

definition apply_sepia :: "image \<Rightarrow> real \<Rightarrow> image" where
  "apply_sepia im intensity =
     (let img_array = np_array im;
          sepia_img = matmul_T img_array sepia_matrix;
          sepia_img = arr_map (\<lambda>v. np_clip v 0 255) sepia_img;
          result = arr_map2 (+) (arr_map (\<lambda>v. v * (1 - intensity)) img_array)
                                (arr_map (\<lambda>v. v * intensity) sepia_img);
          result = arr_map (\<lambda>v. astype_uint8 (np_clip v 0 255)) result
      in fromarray result)"

definition apply_blur :: "externals \<Rightarrow> image \<Rightarrow> real \<Rightarrow> image" where
  "apply_blur ext im radius = GaussianBlur ext im radius"

definition apply_noise :: "externals \<Rightarrow> image \<Rightarrow> real \<Rightarrow> image" where
  "apply_noise ext im intensity =
     (let img_array = np_array im;
          noise = normal ext (intensity * 50) (rows img_array, cols img_array, bands img_array);
          noisy = arr_map2 (+) img_array noise;
          noisy = arr_map (\<lambda>v. astype_uint8 (np_clip v 0 255)) noisy
      in fromarray noisy)"

definition apply_vignette :: "image \<Rightarrow> real \<Rightarrow> image" where
  "apply_vignette im intensity =
     (let w = width im; h = height im;
          x = linspace (- 1) 1 w;
          y = linspace (- 1) 1 h;
          distance = (\<lambda>r c. sqrt ((x c)\<^sup>2 + (y r)\<^sup>2));
          vig = (\<lambda>r c. np_clip (1 - distance r c * intensity) 0 1);
          vignette_rgb = \<lparr>rows = h, cols = w, bands = 3, elem = (\<lambda>r c. replicate 3 (vig r c))\<rparr>;
          img_array = np_array im;
          result = arr_map2 (*) img_array vignette_rgb;
          result = arr_map (\<lambda>v. astype_uint8 (np_clip v 0 255)) result
      in fromarray result)"

definition apply_saturation :: "externals \<Rightarrow> image \<Rightarrow> real \<Rightarrow> image" where
  "apply_saturation ext im factor = enhance_Color ext im factor"

definition apply_contrast :: "externals \<Rightarrow> image \<Rightarrow> real \<Rightarrow> image" where
  "apply_contrast ext im factor = enhance_Contrast ext im factor"

definition fog_color :: "real list" where
  "fog_color = [245, 240, 230]"

definition apply_fade :: "image \<Rightarrow> real \<Rightarrow> image" where
  "apply_fade im intensity =
     (let img_array = np_array im;
          result = arr_vec (+) (arr_map (\<lambda>v. v * (1 - intensity)) img_array)
                               (map (\<lambda>v. v * intensity) fog_color);
          result = arr_map (\<lambda>v. astype_uint8 (np_clip v 0 255)) result
      in fromarray result)"

fun is_float :: "pynum \<Rightarrow> bool" where
  "is_float (PyInt _) = False"
| "is_float (PyFloat _) = True"

definition resolve_params :: "pynum \<Rightarrow> VisualParams option \<Rightarrow> py_error + VisualParams option" where
  \<comment> \<open>the first statement of \<open>process\<close>: explicit params win, a float with a fraction is
      interpolated, anything else is looked up at \<open>int(temporal_level)\<close>\<close>
  "resolve_params temporal_level params =
     (case params of
        Some p \<Rightarrow> Inr (Some p)
      | None \<Rightarrow>
          (if is_float temporal_level \<and> py_mod1 (num_value temporal_level) \<noteq> 0
           then (case interpolate_epochs (num_value temporal_level) of
                   Inl e \<Rightarrow> Inl e | Inr p \<Rightarrow> Inr (Some p))
           else Inr (get_epoch_params (PyInt (py_int (num_value temporal_level))))))"

definition run_stages :: "externals \<Rightarrow> VisualParams \<Rightarrow> image \<Rightarrow> image" where
  \<comment> \<open>the body of \<open>process\<close> from "Ensure RGB mode" to the return\<close>
  "run_stages ext params im =
     (let im = (if mode im \<noteq> RGB then convert ext im RGB else im);
          result = im;
          result = (if blur params > 0 then apply_blur ext result (blur params) else result);
          result = (if sepia params > 0 then apply_sepia result (sepia params) else result);
          result = (if saturation params \<noteq> 1
                    then apply_saturation ext result (saturation params) else result);
          result = (if contrast params \<noteq> 1
                    then apply_contrast ext result (contrast params) else result);
          result = (if noise params > 0 then apply_noise ext result (noise params) else result);
          result = (if vignette params > 0
                    then apply_vignette result (vignette params) else result);
          result = (if fade params > 0 then apply_fade result (fade params) else result)
      in result)"

definition process :: "externals \<Rightarrow> image \<Rightarrow> pynum \<Rightarrow> VisualParams option \<Rightarrow> py_error + image" where
  "process ext im temporal_level params =
     (case resolve_params temporal_level params of
        Inl e \<Rightarrow> Inl e
      | Inr None \<Rightarrow> Inr im
      | Inr (Some p) \<Rightarrow> Inr (run_stages ext p im))"


section \<open>processors/sound.py\<close>

record Soundscape =
  epoch_level :: int
  epoch_name :: string
  period :: string
  elements :: "string list"
  audio_prompt :: string
  intensity :: real
  clarity :: real

record SoundscapeGenerator =
  language :: string

definition digit_char :: "nat \<Rightarrow> char" where
  "digit_char d = ''0123456789'' ! d"

fun str_nat :: "nat \<Rightarrow> string" where
  "str_nat n = (if n < 10 then [digit_char n] else str_nat (n div 10) @ [digit_char (n mod 10)])"

declare str_nat.simps [simp del]

definition str_int :: "int \<Rightarrow> string" where
  \<comment> \<open>how an f-string renders an int\<close>
  "str_int i = (if i < 0 then CHR ''-'' # str_nat (nat (- i)) else str_nat (nat i))"

definition enhance_prompt :: "string \<Rightarrow> int \<Rightarrow> string" where
  "enhance_prompt base_prompt lv =
     (let quality =
            (if lv = 0 then ''crystal clear, high fidelity, present-day''
             else if lv \<le> 2 then ''slightly muffled, warm analog quality, nostalgic''
             else if lv \<le> 4 then ''distant, echoing, as if through old walls, ghostly''
             else ''barely audible whispers, dreamlike, fragmentary, ancient'');
          reverb = min (lv * 15) 80;
          lowpass = max (20000 - (lv * 3000)) 2000
      in base_prompt @ ''. ''
         @ ''Audio quality: '' @ quality @ ''. ''
         @ ''Processing: reverb '' @ str_int reverb @ ''%, low-pass filter at ''
         @ str_int lowpass @ ''Hz, ''
         @ ''slight tape hiss and analog warmth.'')"

definition generate :: "SoundscapeGenerator \<Rightarrow> int \<Rightarrow> py_error + Soundscape" where
  "generate self temporal_level =
     (case (case EPOCHS temporal_level of
              None \<Rightarrow> subscript EPOCHS 0
            | Some e \<Rightarrow> Inr e) of
        Inl err \<Rightarrow> Inl err
      | Inr epoch \<Rightarrow>
          (let intensity' = 1.0 - (of_int temporal_level * 0.12);
               clarity' = 1.0 - (of_int temporal_level * 0.15);
               elements' = (if language self = ''fr''
                            then soundscape epoch else soundscape_en epoch)
           in Inr \<lparr>epoch_level = level epoch,
                    epoch_name = (if language self = ''fr'' then name epoch else name_en epoch),
                    period = Epoch.period epoch,
                    elements = elements',
                    audio_prompt = enhance_prompt (Epoch.audio_prompt epoch) temporal_level,
                    intensity = max 0.1 intensity',
                    clarity = max 0.1 clarity'\<rparr>))"

datatype pyval = IntV int | StrV string | StrListV "string list" | FloatV real

definition to_dict :: "SoundscapeGenerator \<Rightarrow> int \<Rightarrow> py_error + (string \<times> pyval) list" where
  \<comment> \<open>the dict in insertion order\<close>
  "to_dict self temporal_level =
     (case generate self temporal_level of
        Inl err \<Rightarrow> Inl err
      | Inr sc \<Rightarrow>
          Inr [(''epoch_level'', IntV (epoch_level sc)),
               (''epoch_name'', StrV (epoch_name sc)),
               (''period'', StrV (period sc)),
               (''elements'', StrListV (elements sc)),
               (''audio_prompt'', StrV (audio_prompt sc)),
               (''intensity'', FloatV (intensity sc)),
               (''clarity'', FloatV (clarity sc))])"


section \<open>The pipeline as the specification words it\<close>

text \<open>
  The specification describes the pipeline as an ordered list of stages, each with a
  neutral parameter value at which it is skipped. The definitions below follow those
  words; the theorems compare them with \<open>process\<close> as the source writes it.
\<close>

datatype stage = Blur | Sepia | Saturation | Contrast | Noise | Vignette | Fade

definition stage_order :: "stage list" where
  "stage_order = [Blur, Sepia, Saturation, Contrast, Noise, Vignette, Fade]"

fun neutral :: "VisualParams \<Rightarrow> stage \<Rightarrow> bool" where
  "neutral p Blur = (blur p = 0)"
| "neutral p Sepia = (sepia p = 0)"
| "neutral p Saturation = (saturation p = 1)"
| "neutral p Contrast = (contrast p = 1)"
| "neutral p Noise = (noise p = 0)"
| "neutral p Vignette = (vignette p = 0)"
| "neutral p Fade = (fade p = 0)"

fun apply_stage :: "externals \<Rightarrow> VisualParams \<Rightarrow> image \<Rightarrow> stage \<Rightarrow> image" where
  "apply_stage ext p im Blur = apply_blur ext im (blur p)"
| "apply_stage ext p im Sepia = apply_sepia im (sepia p)"
| "apply_stage ext p im Saturation = apply_saturation ext im (saturation p)"
| "apply_stage ext p im Contrast = apply_contrast ext im (contrast p)"
| "apply_stage ext p im Noise = apply_noise ext im (noise p)"
| "apply_stage ext p im Vignette = apply_vignette im (vignette p)"
| "apply_stage ext p im Fade = apply_fade im (fade p)"

definition ensure_rgb :: "externals \<Rightarrow> image \<Rightarrow> image" where
  "ensure_rgb ext im = (if mode im = RGB then im else convert ext im RGB)"

definition staged_pipeline :: "externals \<Rightarrow> VisualParams \<Rightarrow> image \<Rightarrow> image" where
  "staged_pipeline ext p im =
     foldl (\<lambda>r s. if neutral p s then r else apply_stage ext p r s) (ensure_rgb ext im) stage_order"

definition applied_stages :: "VisualParams \<Rightarrow> stage list" where
  "applied_stages p = filter (\<lambda>s. \<not> neutral p s) stage_order"

definition in_domain :: "VisualParams \<Rightarrow> bool" where
  \<comment> \<open>the lower bounds of the documented field domains\<close>
  "in_domain p \<longleftrightarrow>
     0 \<le> sepia p \<and> 0 \<le> blur p \<and> 0 \<le> noise p \<and> 0 \<le> vignette p \<and> 0 \<le> fade p"

definition default_params :: VisualParams where
  "default_params =
     \<lparr>sepia = 0, blur = 0, noise = 0, vignette = 0, saturation = 1, contrast = 1, fade = 0\<rparr>"

definition same_geometry :: "image \<Rightarrow> image \<Rightarrow> bool" where
  "same_geometry a b \<longleftrightarrow> width a = width b \<and> height a = height b"

definition pillow_contract :: "externals \<Rightarrow> bool" where
  \<comment> \<open>what Pillow documents: \<open>convert('RGB')\<close> gives an RGB image of the same size; a
      filter and an enhancer keep mode and size\<close>
  "pillow_contract ext \<longleftrightarrow>
     (\<forall>im. mode (convert ext im RGB) = RGB \<and> same_geometry (convert ext im RGB) im)
     \<and> (\<forall>im r. mode (GaussianBlur ext im r) = mode im \<and> same_geometry (GaussianBlur ext im r) im)
     \<and> (\<forall>im f. mode (enhance_Color ext im f) = mode im \<and> same_geometry (enhance_Color ext im f) im)
     \<and> (\<forall>im f. mode (enhance_Contrast ext im f) = mode im \<and> same_geometry (enhance_Contrast ext im f) im)"

definition resolves :: "pynum \<Rightarrow> VisualParams option \<Rightarrow> bool" where
  \<comment> \<open>the calls in which the first statement of \<open>process\<close> ends with parameters in hand:
      explicit parameters, a float with a fraction, or a whole level from 0 to 6\<close>
  "resolves lv params \<longleftrightarrow>
     params \<noteq> None
     \<or> (is_float lv \<and> py_mod1 (num_value lv) \<noteq> 0)
     \<or> (0 \<le> py_int (num_value lv) \<and> py_int (num_value lv) \<le> 6)"

definition rgb_of :: "image \<Rightarrow> image \<Rightarrow> bool" where
  \<comment> \<open>\<open>out\<close> is an RGB image of the size of \<open>im\<close>\<close>
  "rgb_of out im \<longleftrightarrow> mode out = RGB \<and> width out = width im \<and> height out = height im"

definition nat_of_digits :: "string \<Rightarrow> nat" where
  \<comment> \<open>reads a decimal numeral back\<close>
  "nat_of_digits ds = foldl (\<lambda>a c. 10 * a + (of_char c - 48)) 0 ds"


section \<open>Concrete inputs\<close>

text \<open>
  A stand-in for the libraries with the simplest behaviour that meets
  \<open>pillow_contract\<close>: conversion to RGB repeats a grey band and drops an alpha band, blur
  and the enhancers hand the image back, and the noise drawn is zero everywhere. It is
  not a model of Pillow's filters; it instantiates the statements at concrete inputs.
\<close>

definition plain_externals :: externals where
  "plain_externals =
     \<lparr>convert = (\<lambda>im m.
         \<lparr>mode = m, width = width im, height = height im,
          getpixel = (\<lambda>x y. case mode im of
                               L \<Rightarrow> concat (replicate 3 (getpixel im x y))
                             | RGB \<Rightarrow> getpixel im x y
                             | RGBA \<Rightarrow> take 3 (getpixel im x y))\<rparr>),
      GaussianBlur = (\<lambda>im radius. im),
      enhance_Color = (\<lambda>im factor. im),
      enhance_Contrast = (\<lambda>im factor. im),
      normal = (\<lambda>scale (r, c, b).
         \<lparr>rows = r, cols = c, bands = b, elem = (\<lambda>y x. replicate b 0)\<rparr>)\<rparr>"

definition blue_image :: image where
  \<comment> \<open>\<open>Image.new('RGB', (100, 100), color='blue')\<close>\<close>
  "blue_image = \<lparr>mode = RGB, width = 100, height = 100, getpixel = (\<lambda>x y. [0, 0, 255])\<rparr>"

definition gray_image :: image where
  \<comment> \<open>\<open>Image.new('L', (50, 50), color=128)\<close>\<close>
  "gray_image = \<lparr>mode = L, width = 50, height = 50, getpixel = (\<lambda>x y. [128])\<rparr>"

definition rgba_image :: image where
  \<comment> \<open>\<open>Image.new('RGBA', (50, 50), color=(255, 0, 0, 128))\<close>\<close>
  "rgba_image =
     \<lparr>mode = RGBA, width = 50, height = 50, getpixel = (\<lambda>x y. [255, 0, 0, 128])\<rparr>"

definition en_generator :: SoundscapeGenerator where
  "en_generator = \<lparr>language = ''en''\<rparr>"

definition fr_generator :: SoundscapeGenerator where
  "fr_generator = \<lparr>language = ''fr''\<rparr>"


section \<open>The epoch table\<close>

lemma EPOCHS_lookup:
  "EPOCHS k =
     (if k = 0 then Some epoch_0 else if k = 1 then Some epoch_1
      else if k = 2 then Some epoch_2 else if k = 3 then Some epoch_3
      else if k = 4 then Some epoch_4 else if k = 5 then Some epoch_5
      else if k = 6 then Some epoch_6 else None)"
  by (simp add: EPOCHS_def EPOCHS_items_def)

lemma EPOCHS_None_iff: "EPOCHS k = None \<longleftrightarrow> \<not> (0 \<le> k \<and> k \<le> 6)"
  by (auto simp: EPOCHS_lookup)

lemma EPOCHS_level: "EPOCHS k = Some e \<Longrightarrow> level e = k"
  by (auto simp: EPOCHS_lookup epoch_0_def epoch_1_def epoch_2_def epoch_3_def epoch_4_def
      epoch_5_def epoch_6_def split: if_splits)

lemma EPOCHS_names:
  "EPOCHS k = Some e \<Longrightarrow> name e \<noteq> [] \<and> description e \<noteq> []"
  by (auto simp: EPOCHS_lookup epoch_0_def epoch_1_def epoch_2_def epoch_3_def epoch_4_def
      epoch_5_def epoch_6_def split: if_splits)

lemma EPOCHS_in_domain: "EPOCHS k = Some e \<Longrightarrow> in_domain (visual e)"
  by (auto simp: EPOCHS_lookup in_domain_def epoch_0_def epoch_1_def epoch_2_def epoch_3_def
      epoch_4_def epoch_5_def epoch_6_def split: if_splits)

lemma py_int_of_int [simp]: "py_int (of_int k) = k"
  by (simp add: py_int_def)

lemma py_int_numeral [simp]:
  "py_int (numeral n) = numeral n" "py_int (- numeral n) = - numeral n"
  "py_int 0 = 0" "py_int 1 = 1"
  by (simp_all add: py_int_def)

lemma lerp_0 [simp]: "lerp a b 0 = a"
  by (simp add: lerp_def)

lemma lerp_nonneg:
  assumes "0 \<le> a" "0 \<le> b" "0 \<le> t" "t \<le> 1"
  shows "0 \<le> lerp a b t"
proof -
  have "lerp a b t = a * (1 - t) + b * t"
    by (simp add: lerp_def algebra_simps)
  moreover have "0 \<le> a * (1 - t)" "0 \<le> b * t"
    using assms by simp_all
  ultimately show ?thesis by simp
qed


section \<open>Interpolation\<close>

lemma interpolate_at_epoch:
  assumes "EPOCHS k = Some e"
  shows "interpolate_epochs (of_int k) = Inr (visual e)"
proof -
  from assms have k: "0 \<le> k" "k \<le> 6"
    using EPOCHS_None_iff [of k] by auto
  then have clamp: "max 0 (min 6 (real_of_int k)) = of_int k"
    by simp
  obtain e2 where e2: "EPOCHS (min (k + 1) 6) = Some e2"
    using k EPOCHS_None_iff [of "min (k + 1) 6"] by (cases "EPOCHS (min (k + 1) 6)") auto
  show ?thesis
    unfolding interpolate_epochs_def clamp Let_def
    by (simp add: subscript_def assms e2)
qed

lemma interpolate_below:
  assumes "x \<le> 0"
  shows "interpolate_epochs x = Inr (visual epoch_0)"
proof -
  from assms have "max 0 (min 6 x) = 0" by simp
  then have "interpolate_epochs x = interpolate_epochs (of_int 0)"
    by (simp add: interpolate_epochs_def)
  also have "\<dots> = Inr (visual epoch_0)"
    by (rule interpolate_at_epoch) (simp add: EPOCHS_lookup)
  finally show ?thesis .
qed

lemma interpolate_above:
  assumes "6 \<le> x"
  shows "interpolate_epochs x = Inr (visual epoch_6)"
proof -
  from assms have "max 0 (min 6 x) = 6" by simp
  then have "interpolate_epochs x = interpolate_epochs (of_int 6)"
    by (simp add: interpolate_epochs_def)
  also have "\<dots> = Inr (visual epoch_6)"
    by (rule interpolate_at_epoch) (simp add: EPOCHS_lookup)
  finally show ?thesis .
qed

lemma interpolate_total_in_domain:
  "\<exists>p. interpolate_epochs x = Inr p \<and> in_domain p"
proof -
  define lv where "lv = max 0 (min 6 x)"
  define lower where "lower = py_int lv"
  define upper where "upper = min (lower + 1) 6"
  define t where "t = lv - of_int lower"
  have lv: "0 \<le> lv" "lv \<le> 6" by (simp_all add: lv_def)
  then have lower: "lower = \<lfloor>lv\<rfloor>" by (simp add: lower_def py_int_def)
  have lo: "0 \<le> lower" "lower \<le> 6"
    using lv unfolding lower by (simp_all add: floor_le_iff le_floor_iff)
  then have up: "0 \<le> upper" "upper \<le> 6" by (simp_all add: upper_def)
  have t: "0 \<le> t" "t \<le> 1" unfolding t_def lower by linarith+
  obtain e1 where e1: "EPOCHS lower = Some e1"
    using lo EPOCHS_None_iff [of lower] by (cases "EPOCHS lower") auto
  obtain e2 where e2: "EPOCHS upper = Some e2"
    using up EPOCHS_None_iff [of upper] by (cases "EPOCHS upper") auto
  have d1: "in_domain (visual e1)" and d2: "in_domain (visual e2)"
    using e1 e2 by (simp_all add: EPOCHS_in_domain)
  define q where "q =
      \<lparr>sepia = lerp (sepia (visual e1)) (sepia (visual e2)) t,
       blur = lerp (blur (visual e1)) (blur (visual e2)) t,
       noise = lerp (noise (visual e1)) (noise (visual e2)) t,
       vignette = lerp (vignette (visual e1)) (vignette (visual e2)) t,
       saturation = lerp (saturation (visual e1)) (saturation (visual e2)) t,
       contrast = lerp (contrast (visual e1)) (contrast (visual e2)) t,
       fade = lerp (fade (visual e1)) (fade (visual e2)) t\<rparr>"
  have "interpolate_epochs x = Inr q"
    unfolding interpolate_epochs_def Let_def
    unfolding lv_def [symmetric] lower_def [symmetric]
    unfolding upper_def [symmetric] t_def [symmetric]
    by (simp add: subscript_def e1 e2 q_def)
  moreover have "in_domain q"
    using d1 d2 t by (simp add: in_domain_def lerp_nonneg q_def)
  ultimately show ?thesis by blast
qed

text \<open>
  C3. At every integer level 0..6 the interpolator returns that epoch's parameters field
  for field (the weight is 0, and the model computes exactly); at every level at or below
  0 it returns epoch 0's parameters and at every level at or above 6 epoch 6's, since the
  level is clamped before the bracketing epochs are chosen. So levels -5 and 0 agree, and
  so do levels 100 and 6.
\<close>

theorem interpolate_epochs_exact:
  "(0 \<le> k \<and> k \<le> 6 \<longrightarrow>
      (\<exists>e. get_epoch_by_level (PyInt k) = Some e
           \<and> interpolate_epochs (of_int k) = Inr (visual e)))
   \<and> (x \<le> 0 \<longrightarrow> interpolate_epochs x = Inr (visual epoch_0))
   \<and> (6 \<le> x \<longrightarrow> interpolate_epochs x = Inr (visual epoch_6))
   \<and> get_epoch_by_level (PyInt 0) = Some epoch_0
   \<and> get_epoch_by_level (PyInt 6) = Some epoch_6
   \<and> interpolate_epochs (- 5) = interpolate_epochs 0
   \<and> interpolate_epochs 100 = interpolate_epochs 6"
proof -
  have a: "\<exists>e. get_epoch_by_level (PyInt k) = Some e
              \<and> interpolate_epochs (of_int k) = Inr (visual e)"
    if "0 \<le> k \<and> k \<le> 6"
  proof -
    from that obtain e where e: "EPOCHS k = Some e"
      using EPOCHS_None_iff [of k] by (cases "EPOCHS k") auto
    then show ?thesis
      by (auto simp: get_epoch_by_level_def interpolate_at_epoch)
  qed
  have b: "interpolate_epochs (- 5) = interpolate_epochs 0"
    by (simp add: interpolate_below)
  have c: "interpolate_epochs 100 = interpolate_epochs 6"
    by (simp add: interpolate_above)
  have d: "get_epoch_by_level (PyInt 0) = Some epoch_0"
    "get_epoch_by_level (PyInt 6) = Some epoch_6"
    by (simp_all add: get_epoch_by_level_def EPOCHS_lookup)
  show ?thesis
    using a b c d interpolate_below [of x] interpolate_above [of x] by blast
qed

theorem interpolate_epochs_exact_witness:
  "interpolate_epochs 3 = Inr (visual epoch_3)
   \<and> interpolate_epochs (- 5) = Inr (visual epoch_0)
   \<and> interpolate_epochs 100 = Inr (visual epoch_6)"
  using interpolate_epochs_exact [of 3 "- 5"] interpolate_epochs_exact [of 3 100]
  by (simp add: get_epoch_by_level_def EPOCHS_lookup)

text \<open>
  C4. The lookup finds an epoch exactly at the integers 0..6 (a float equal to such an
  integer is the same dict key): there it returns the epoch of that level, with a
  non-empty name and description and its seven visual parameters; at every other level,
  such as -1, 7 or 3.5, it returns None. The result is an option: no branch raises, and
  no level is clamped.
\<close>

theorem get_epoch_by_level_defined_iff:
  "(0 \<le> k \<and> k \<le> 6 \<longrightarrow>
      (\<exists>e. get_epoch_by_level (PyInt k) = Some e
           \<and> get_epoch_by_level (PyFloat (of_int k)) = Some e
           \<and> get_epoch_params (PyInt k) = Some (visual e)
           \<and> level e = k \<and> name e \<noteq> [] \<and> description e \<noteq> []))
   \<and> ((\<nexists>j. 0 \<le> j \<and> j \<le> 6 \<and> num_value lv = of_int j) \<longrightarrow> get_epoch_by_level lv = None)
   \<and> get_epoch_by_level (PyInt (- 1)) = None
   \<and> get_epoch_by_level (PyInt 7) = None
   \<and> get_epoch_by_level (PyFloat 3.5) = None"
proof -
  have a: "\<exists>e. get_epoch_by_level (PyInt k) = Some e
           \<and> get_epoch_by_level (PyFloat (of_int k)) = Some e
           \<and> get_epoch_params (PyInt k) = Some (visual e)
           \<and> level e = k \<and> name e \<noteq> [] \<and> description e \<noteq> []"
    if "0 \<le> k \<and> k \<le> 6"
  proof -
    from that obtain e where e: "EPOCHS k = Some e"
      using EPOCHS_None_iff [of k] by (cases "EPOCHS k") auto
    then show ?thesis
      using EPOCHS_level [OF e] EPOCHS_names [OF e]
      by (simp add: get_epoch_by_level_def get_epoch_params_def)
  qed
  have b: "get_epoch_by_level lv = None"
    if n: "\<nexists>j. 0 \<le> j \<and> j \<le> 6 \<and> num_value lv = of_int j"
  proof (cases lv)
    case (PyInt i)
    with n have "\<not> (0 \<le> i \<and> i \<le> 6)" by auto
    then show ?thesis
      using EPOCHS_None_iff [of i] by (simp add: get_epoch_by_level_def PyInt)
  next
    case (PyFloat r)
    show ?thesis
    proof (cases "r = of_int \<lfloor>r\<rfloor>")
      case True
      with n PyFloat have "\<not> (0 \<le> \<lfloor>r\<rfloor> \<and> \<lfloor>r\<rfloor> \<le> 6)" by auto
      then show ?thesis
        using EPOCHS_None_iff [of "\<lfloor>r\<rfloor>"] by (simp add: get_epoch_by_level_def PyFloat)
    next
      case False
      then show ?thesis by (simp add: get_epoch_by_level_def PyFloat)
    qed
  qed
  have c: "get_epoch_by_level (PyInt (- 1)) = None" "get_epoch_by_level (PyInt 7) = None"
    "get_epoch_by_level (PyFloat 3.5) = None"
    by (simp_all add: get_epoch_by_level_def EPOCHS_lookup)
  show ?thesis using a b c by blast
qed

theorem get_epoch_by_level_defined_iff_witness:
  "(\<exists>e. get_epoch_by_level (PyInt 4) = Some e \<and> level e = 4 \<and> name e \<noteq> [])
   \<and> get_epoch_by_level (PyFloat 2.25) = None"
proof -
  have "\<nexists>j::int. 0 \<le> j \<and> j \<le> 6 \<and> num_value (PyFloat 2.25) = of_int j"
  proof
    assume "\<exists>j::int. 0 \<le> j \<and> j \<le> 6 \<and> num_value (PyFloat 2.25) = of_int j"
    then obtain j :: int where "(2.25::real) = of_int j" by auto
    then have "of_int j * 4 = (9::real)" by simp
    then have "real_of_int (j * 4) = real_of_int 9" by simp
    then have "j * 4 = 9" by (simp only: of_int_eq_iff)
    then show False by presburger
  qed
  then show ?thesis
    using get_epoch_by_level_defined_iff [of 4 "PyFloat 2.25"] by auto
qed


section \<open>The pipeline\<close>

lemma run_stages_staged:
  assumes "in_domain p"
  shows "run_stages ext p im = staged_pipeline ext p im"
proof -
  from assms have pos:
    "0 < blur p \<longleftrightarrow> blur p \<noteq> 0" "0 < sepia p \<longleftrightarrow> sepia p \<noteq> 0"
    "0 < noise p \<longleftrightarrow> noise p \<noteq> 0" "0 < vignette p \<longleftrightarrow> vignette p \<noteq> 0"
    "0 < fade p \<longleftrightarrow> fade p \<noteq> 0"
    by (auto simp: in_domain_def)
  show ?thesis
    unfolding run_stages_def staged_pipeline_def stage_order_def ensure_rgb_def Let_def pos
    by simp
qed

lemma foldl_skip_filter:
  "foldl (\<lambda>r s. if P s then r else f r s) a xs = foldl f a (filter (\<lambda>s. \<not> P s) xs)"
  by (induction xs arbitrary: a) auto

lemma staged_pipeline_applied:
  "staged_pipeline ext p im = foldl (apply_stage ext p) (ensure_rgb ext im) (applied_stages p)"
  by (simp add: staged_pipeline_def applied_stages_def foldl_skip_filter)

lemma resolve_params_total: "\<exists>r. resolve_params lv params = Inr r"
  using interpolate_total_in_domain [of "num_value lv"]
  by (cases params) (auto simp: resolve_params_def)

lemma resolve_params_table_in_domain:
  assumes "resolve_params lv None = Inr (Some p)"
  shows "in_domain p"
proof (cases "is_float lv \<and> py_mod1 (num_value lv) \<noteq> 0")
  case True
  then show ?thesis
    using assms interpolate_total_in_domain [of "num_value lv"]
    by (auto simp: resolve_params_def)
next
  case False
  with assms have "get_epoch_params (PyInt (py_int (num_value lv))) = Some p"
    by (auto simp: resolve_params_def)
  then show ?thesis
    by (auto simp: get_epoch_params_def EPOCHS_in_domain split: option.splits)
qed

lemma resolve_params_int:
  "resolve_params (PyInt k) None = Inr (get_epoch_params (PyInt k))"
  by (simp add: resolve_params_def)

text \<open>
  C1. Whenever the parameters resolve (from the table, by interpolation, or given by the
  caller within the documented lower bounds of the fields), \<open>process\<close> returns the
  image obtained by walking the seven stages in the order blur, sepia, saturation,
  contrast, noise, vignette, fade, where a stage whose parameter has its neutral value
  hands the intermediate image on unchanged and every other stage is applied: the stages
  applied are exactly the non-neutral ones, in that order.
\<close>

theorem process_stage_order:
  assumes "resolve_params lv params = Inr (Some p)"
    and "params = None \<or> in_domain p"
  shows "process ext im lv params = Inr (staged_pipeline ext p im)
       \<and> staged_pipeline ext p im
           = foldl (apply_stage ext p) (ensure_rgb ext im) (applied_stages p)
       \<and> applied_stages p
           = filter (\<lambda>s. \<not> neutral p s) [Blur, Sepia, Saturation, Contrast, Noise, Vignette, Fade]"
proof -
  from assms have "in_domain p"
    using resolve_params_table_in_domain by blast
  then have "run_stages ext p im = staged_pipeline ext p im"
    by (rule run_stages_staged)
  with assms(1) show ?thesis
    by (simp add: process_def staged_pipeline_applied applied_stages_def stage_order_def)
qed

theorem process_stage_order_witness:
  "process plain_externals blue_image (PyInt 3) None
     = Inr (foldl (apply_stage plain_externals (visual epoch_3)) blue_image
              [Blur, Sepia, Saturation, Contrast, Noise, Vignette, Fade])
   \<and> process plain_externals blue_image (PyInt 0) (Some (default_params\<lparr>sepia := 1\<rparr>))
     = Inr (apply_sepia blue_image 1)"
proof -
  have r3: "resolve_params (PyInt 3) None = Inr (Some (visual epoch_3))"
    by (simp add: resolve_params_int get_epoch_params_def EPOCHS_lookup)
  have a3: "applied_stages (visual epoch_3)
      = [Blur, Sepia, Saturation, Contrast, Noise, Vignette, Fade]"
    by (simp add: applied_stages_def stage_order_def epoch_3_def)
  have rc: "resolve_params (PyInt 0) (Some (default_params\<lparr>sepia := 1\<rparr>))
      = Inr (Some (default_params\<lparr>sepia := 1\<rparr>))"
    by (simp add: resolve_params_def)
  have dc: "in_domain (default_params\<lparr>sepia := 1\<rparr>)"
    by (simp add: in_domain_def default_params_def)
  have ac: "applied_stages (default_params\<lparr>sepia := 1\<rparr>) = [Sepia]"
    by (simp add: applied_stages_def stage_order_def default_params_def)
  have rgb: "ensure_rgb plain_externals blue_image = blue_image"
    by (simp add: ensure_rgb_def blue_image_def)
  have "process plain_externals blue_image (PyInt 3) None
      = Inr (foldl (apply_stage plain_externals (visual epoch_3))
               (ensure_rgb plain_externals blue_image) (applied_stages (visual epoch_3)))"
    using process_stage_order [OF r3, of plain_externals blue_image] by simp
  moreover have "process plain_externals blue_image (PyInt 0) (Some (default_params\<lparr>sepia := 1\<rparr>))
      = Inr (foldl (apply_stage plain_externals (default_params\<lparr>sepia := 1\<rparr>))
               (ensure_rgb plain_externals blue_image)
               (applied_stages (default_params\<lparr>sepia := 1\<rparr>)))"
    using process_stage_order [OF rc, of plain_externals blue_image] dc by simp
  moreover have "sepia (default_params\<lparr>sepia := 1\<rparr>) = 1"
    by simp
  ultimately show ?thesis
    by (simp only: a3 ac rgb foldl.simps apply_stage.simps)
qed


lemma get_epoch_params_None_iff:
  "get_epoch_params (PyInt k) = None \<longleftrightarrow> \<not> (0 \<le> k \<and> k \<le> 6)"
  using EPOCHS_None_iff [of k] by (cases "EPOCHS k") (simp_all add: get_epoch_params_def)

lemma resolve_params_None_iff:
  "resolve_params lv params = Inr None \<longleftrightarrow> \<not> resolves lv params"
proof (cases params)
  case (Some p)
  then show ?thesis by (simp add: resolve_params_def resolves_def)
next
  case None
  show ?thesis
  proof (cases "is_float lv \<and> py_mod1 (num_value lv) \<noteq> 0")
    case True
    then show ?thesis
      using None interpolate_total_in_domain [of "num_value lv"]
      by (auto simp: resolve_params_def resolves_def)
  next
    case False
    then show ?thesis
      using None get_epoch_params_None_iff [of "py_int (num_value lv)"]
      by (auto simp: resolve_params_def resolves_def)
  qed
qed

lemma resolves_Some:
  assumes "resolves lv params"
  shows "\<exists>p. resolve_params lv params = Inr (Some p)"
proof -
  obtain r where r: "resolve_params lv params = Inr r"
    using resolve_params_total by blast
  with assms resolve_params_None_iff [of lv params] have "r \<noteq> None" by auto
  with r show ?thesis by auto
qed

lemma process_unresolved:
  assumes "\<not> resolves lv params"
  shows "process ext im lv params = Inr im"
  using assms resolve_params_None_iff [of lv params] by (simp add: process_def)

lemma run_stages_default:
  assumes "mode im = RGB"
  shows "run_stages ext default_params im = im"
  using assms by (simp add: run_stages_def default_params_def)

text \<open>
  C2. On an RGB image the all-defaults parameters, which are the parameters of epoch 0,
  make no stage run: \<open>process\<close> returns the input image itself, so every pixel of the
  output is the pixel of the input.
\<close>

theorem process_defaults_identity:
  assumes "mode im = RGB"
  shows "get_epoch_params (PyInt 0) = Some default_params
       \<and> process ext im (PyInt 0) None = Inr im
       \<and> process ext im (PyFloat 0) None = Inr im
       \<and> process ext im lv (Some default_params) = Inr im
       \<and> applied_stages default_params = []"
proof -
  have p0: "get_epoch_params (PyInt 0) = Some default_params"
    by (simp add: get_epoch_params_def EPOCHS_lookup epoch_0_def default_params_def)
  then have "resolve_params (PyInt 0) None = Inr (Some default_params)"
    "resolve_params (PyFloat 0) None = Inr (Some default_params)"
    "resolve_params lv (Some default_params) = Inr (Some default_params)"
    by (simp_all add: resolve_params_def py_mod1_def py_int_def)
  moreover have "applied_stages default_params = []"
    by (simp add: applied_stages_def stage_order_def default_params_def)
  ultimately show ?thesis
    using p0 run_stages_default [OF assms] by (simp add: process_def)
qed

theorem process_defaults_identity_witness:
  "process plain_externals blue_image (PyInt 0) None = Inr blue_image
   \<and> getpixel blue_image 10 20 = [0, 0, 255]"
proof -
  have "mode blue_image = RGB" by (simp add: blue_image_def)
  from process_defaults_identity [OF this, of plain_externals]
  show ?thesis by (simp add: blue_image_def)
qed

lemma fromarray_geometry [simp]:
  "width (fromarray a) = cols a" "height (fromarray a) = rows a"
  "bands a = 3 \<Longrightarrow> mode (fromarray a) = RGB"
  by (simp_all add: fromarray_def)

lemma arr_shape [simp]:
  "rows (arr_map f a) = rows a" "cols (arr_map f a) = cols a" "bands (arr_map f a) = bands a"
  "rows (arr_map2 g a b) = rows a" "cols (arr_map2 g a b) = cols a"
  "bands (arr_map2 g a b) = bands a"
  "rows (arr_vec g a v) = rows a" "cols (arr_vec g a v) = cols a"
  "bands (arr_vec g a v) = bands a"
  "rows (np_array im) = height im" "cols (np_array im) = width im"
  "bands (np_array im) = mode_bands (mode im)"
  by (simp_all add: arr_map_def arr_map2_def arr_vec_def np_array_def)

lemma apply_sepia_rgb: "mode im = RGB \<Longrightarrow> rgb_of (apply_sepia im s) im"
  by (simp add: apply_sepia_def rgb_of_def Let_def)

lemma apply_noise_rgb: "mode im = RGB \<Longrightarrow> rgb_of (apply_noise ext im s) im"
  by (simp add: apply_noise_def rgb_of_def Let_def)

lemma apply_vignette_rgb: "mode im = RGB \<Longrightarrow> rgb_of (apply_vignette im s) im"
  by (simp add: apply_vignette_def rgb_of_def Let_def)

lemma apply_fade_rgb: "mode im = RGB \<Longrightarrow> rgb_of (apply_fade im s) im"
  by (simp add: apply_fade_def rgb_of_def Let_def)

lemma pillow_rgb:
  assumes "pillow_contract ext"
  shows "rgb_of (ensure_rgb ext im) im"
    and "mode im = RGB \<Longrightarrow> rgb_of (apply_blur ext im r) im"
    and "mode im = RGB \<Longrightarrow> rgb_of (apply_saturation ext im f) im"
    and "mode im = RGB \<Longrightarrow> rgb_of (apply_contrast ext im f) im"
  using assms
  by (simp_all add: pillow_contract_def same_geometry_def rgb_of_def ensure_rgb_def
      apply_blur_def apply_saturation_def apply_contrast_def)

lemma apply_stage_rgb:
  assumes "pillow_contract ext" "mode im = RGB"
  shows "rgb_of (apply_stage ext p im s) im"
  using assms pillow_rgb [OF assms(1)]
  by (cases s) (simp_all add: apply_sepia_rgb apply_noise_rgb apply_vignette_rgb apply_fade_rgb)

lemma foldl_stages_rgb:
  assumes "pillow_contract ext" "rgb_of a im"
  shows "rgb_of (foldl (\<lambda>r s. if P s then apply_stage ext p r s else r) a ss) im"
  using assms(2)
proof (induction ss arbitrary: a)
  case Nil
  then show ?case by simp
next
  case (Cons s ss)
  have "rgb_of (if P s then apply_stage ext p a s else a) im"
    using Cons.prems apply_stage_rgb [OF assms(1), of a p s]
    by (auto simp: rgb_of_def)
  then show ?case using Cons.IH by simp
qed

lemma run_stages_fold:
  "run_stages ext p im =
     foldl (\<lambda>r s. if (case s of Saturation \<Rightarrow> saturation p \<noteq> 1 | Contrast \<Rightarrow> contrast p \<noteq> 1
                       | Blur \<Rightarrow> 0 < blur p | Sepia \<Rightarrow> 0 < sepia p | Noise \<Rightarrow> 0 < noise p
                       | Vignette \<Rightarrow> 0 < vignette p | Fade \<Rightarrow> 0 < fade p)
                   then apply_stage ext p r s else r)
       (ensure_rgb ext im) stage_order"
  by (simp add: run_stages_def stage_order_def ensure_rgb_def Let_def)

lemma run_stages_rgb:
  assumes "pillow_contract ext"
  shows "rgb_of (run_stages ext p im) im"
  unfolding run_stages_fold
  by (rule foldl_stages_rgb [OF assms]) (rule pillow_rgb(1) [OF assms])


lemma plain_externals_contract: "pillow_contract plain_externals"
  by (simp add: pillow_contract_def plain_externals_def same_geometry_def)

text \<open>
  C5. Given Pillow's documented behaviour (\<open>pillow_contract\<close>), whenever parameters
  are in hand (explicit parameters, a float level with a fraction, or a whole level from
  0 to 6) the output of \<open>process\<close> is an RGB image with the width and height of the
  input, whatever the mode of the input and whatever the parameter values. At a whole
  level outside 0..6 without explicit parameters, \<open>process\<close> returns the input image
  as it is, mode included.
\<close>

theorem process_output_rgb:
  assumes "pillow_contract ext"
  shows "(resolves lv params \<longrightarrow>
           (\<exists>out. process ext im lv params = Inr out
                \<and> mode out = RGB \<and> width out = width im \<and> height out = height im))
       \<and> (\<not> resolves lv params \<longrightarrow> process ext im lv params = Inr im)"
proof -
  have "\<exists>out. process ext im lv params = Inr out
            \<and> mode out = RGB \<and> width out = width im \<and> height out = height im"
    if "resolves lv params"
  proof -
    from that obtain p where "resolve_params lv params = Inr (Some p)"
      using resolves_Some by blast
    then have "process ext im lv params = Inr (run_stages ext p im)"
      by (simp add: process_def)
    then show ?thesis
      using run_stages_rgb [OF assms, of p im] by (simp add: rgb_of_def)
  qed
  then show ?thesis
    using process_unresolved [of lv params ext im] by blast
qed

theorem process_output_rgb_witness:
  "(\<exists>out. process plain_externals gray_image (PyInt 3) None = Inr out
        \<and> mode out = RGB \<and> width out = 50 \<and> height out = 50)
   \<and> (\<exists>out. process plain_externals rgba_image (PyFloat 2.5) None = Inr out
        \<and> mode out = RGB \<and> width out = 50 \<and> height out = 50)"
proof -
  have "resolves (PyInt 3) None" "resolves (PyFloat 2.5) None"
    by (simp_all add: resolves_def py_mod1_def)
  then show ?thesis
    using process_output_rgb [OF plain_externals_contract, of "PyInt 3" None gray_image]
      process_output_rgb [OF plain_externals_contract, of "PyFloat 2.5" None rgba_image]
    by (simp add: gray_image_def rgba_image_def)
qed

theorem process_out_of_range_keeps_mode:
  "process plain_externals gray_image (PyInt 7) None = Inr gray_image
   \<and> mode gray_image = L \<and> mode_bands (mode gray_image) = 1"
  by (simp add: process_def resolve_params_def get_epoch_params_def EPOCHS_lookup gray_image_def)



section \<open>The numpy stages, pixel by pixel\<close>

lemma unat_astype_uint8:
  assumes "0 \<le> v" "v \<le> 255"
  shows "unat (astype_uint8 v) = nat \<lfloor>v\<rfloor>"
proof -
  have f: "0 \<le> \<lfloor>v\<rfloor>" "\<lfloor>v\<rfloor> < 256"
    using assms by (simp_all add: floor_less_iff)
  have "uint (word_of_int \<lfloor>v\<rfloor> :: 8 word) = \<lfloor>v\<rfloor>"
    using f by (simp add: uint_word_of_int)
  then show ?thesis
    using assms by (simp add: astype_uint8_def py_int_def unat_eq_nat_uint)
qed

lemma np_clip_bounds: "lo \<le> hi \<Longrightarrow> lo \<le> np_clip v lo hi \<and> np_clip v lo hi \<le> hi"
  by (simp add: np_clip_def)

lemma unat_astype_clip:
  "unat (astype_uint8 (np_clip v 0 255)) = nat \<lfloor>np_clip v 0 255\<rfloor>"
  using np_clip_bounds [of 0 255 v] by (simp add: unat_astype_uint8)

lemma sepia_px:
  assumes "getpixel im x y = [r, g, b]"
  shows "getpixel (apply_sepia im s) x y =
    [astype_uint8 (np_clip (real (unat r) * (1 - s)
        + np_clip (real (unat r) * 0.393 + real (unat g) * 0.769 + real (unat b) * 0.189) 0 255 * s) 0 255),
     astype_uint8 (np_clip (real (unat g) * (1 - s)
        + np_clip (real (unat r) * 0.349 + real (unat g) * 0.686 + real (unat b) * 0.168) 0 255 * s) 0 255),
     astype_uint8 (np_clip (real (unat b) * (1 - s)
        + np_clip (real (unat r) * 0.272 + real (unat g) * 0.534 + real (unat b) * 0.131) 0 255 * s) 0 255)]"
  using assms
  by (simp add: apply_sepia_def np_array_def matmul_T_def arr_map_def arr_map2_def
      fromarray_def dot_def sepia_matrix_def Let_def add.assoc)

lemma fade_px:
  assumes "getpixel im x y = [r, g, b]"
  shows "getpixel (apply_fade im s) x y =
    [astype_uint8 (np_clip (real (unat r) * (1 - s) + 245 * s) 0 255),
     astype_uint8 (np_clip (real (unat g) * (1 - s) + 240 * s) 0 255),
     astype_uint8 (np_clip (real (unat b) * (1 - s) + 230 * s) 0 255)]"
  using assms
  by (simp add: apply_fade_def np_array_def arr_map_def arr_vec_def
      fromarray_def fog_color_def Let_def)

lemma vignette_px:
  assumes "getpixel im x y = [r, g, b]"
  shows "getpixel (apply_vignette im s) x y =
    map (\<lambda>c. astype_uint8 (np_clip (real (unat c) *
          np_clip (1 - sqrt ((linspace (- 1) 1 (width im) x)\<^sup>2
                           + (linspace (- 1) 1 (height im) y)\<^sup>2) * s) 0 1) 0 255)) [r, g, b]"
  using assms
  by (simp add: apply_vignette_def np_array_def arr_map_def arr_map2_def
      fromarray_def Let_def numeral_3_eq_3)

lemma noise_px_plain:
  assumes "getpixel im x y = [r, g, b]" "mode im = RGB"
  shows "getpixel (apply_noise plain_externals im s) x y =
    map (\<lambda>c. astype_uint8 (np_clip (real (unat c)) 0 255)) [r, g, b]"
  using assms
  by (simp add: apply_noise_def np_array_def arr_map_def arr_map2_def
      fromarray_def Let_def numeral_3_eq_3 plain_externals_def)


text \<open>
  C6. On a three-band pixel the sepia stage multiplies the pixel by the fixed matrix
  (rows 0.393 0.769 0.189, 0.349 0.686 0.168, 0.272 0.534 0.131), clamps the toned
  triple to [0, 255], blends it with the original as (1 - s) * original + s * toned,
  clamps again and drops the fraction; the resulting byte is that integer, with no
  wrap-around. The formula is the one the stage computes at every intensity, so in
  particular at every s > 0, where \<open>process\<close> runs the stage.
\<close>

theorem apply_sepia_pixel:
  assumes "getpixel im x y = [r, g, b]"
  shows "map unat (getpixel (apply_sepia im s) x y) =
     (let R = real (unat r); G = real (unat g); B = real (unat b);
          sepia_R = np_clip (0.393 * R + 0.769 * G + 0.189 * B) 0 255;
          sepia_G = np_clip (0.349 * R + 0.686 * G + 0.168 * B) 0 255;
          sepia_B = np_clip (0.272 * R + 0.534 * G + 0.131 * B) 0 255
      in [nat \<lfloor>np_clip ((1 - s) * R + s * sepia_R) 0 255\<rfloor>,
          nat \<lfloor>np_clip ((1 - s) * G + s * sepia_G) 0 255\<rfloor>,
          nat \<lfloor>np_clip ((1 - s) * B + s * sepia_B) 0 255\<rfloor>])"
  unfolding sepia_px [OF assms] Let_def
  by (simp add: unat_astype_clip mult.commute)

theorem apply_sepia_pixel_witness:
  "map unat (getpixel (apply_sepia blue_image (1 / 2)) 0 0) = [24, 21, 144]"
proof -
  have "getpixel blue_image 0 0 = [0, 0, 255]"
    by (simp add: blue_image_def)
  from apply_sepia_pixel [OF this, of "1 / 2"] show ?thesis
    by (simp add: np_clip_def Let_def)
qed

lemma sqrt2_vignette: "1 \<le> sqrt 2 * (3 / 4)"
proof -
  have "(4 / 3 :: real) \<le> sqrt 2"
    by (rule real_le_rsqrt) (simp add: power2_eq_square)
  then show ?thesis by simp
qed

lemma blue_level_6_corner:
  "getpixel (run_stages plain_externals (visual epoch_6) blue_image) 0 0 = [171, 168, 161]"
proof -
  define a where "a = apply_sepia blue_image 0.95"
  define b where "b = apply_noise plain_externals a 0.5"
  define c where "c = apply_vignette b 0.75"
  define d where "d = apply_fade c 0.7"
  have run: "run_stages plain_externals (visual epoch_6) blue_image = d"
    by (simp add: run_stages_def epoch_6_def blue_image_def Let_def apply_blur_def
        apply_saturation_def apply_contrast_def plain_externals_def a_def b_def c_def d_def)
  have "getpixel blue_image 0 0 = [0, 0, 255]"
    by (simp add: blue_image_def)
  then have pa: "getpixel a 0 0 = [45, 40, 44]"
    unfolding a_def by (simp add: sepia_px np_clip_def astype_uint8_def py_int_def)
  have ma: "rgb_of a blue_image"
    unfolding a_def by (rule apply_sepia_rgb) (simp add: blue_image_def)
  then have "mode a = RGB" by (simp add: rgb_of_def)
  then have pb: "getpixel b 0 0 = [45, 40, 44]"
    unfolding b_def
    by (simp add: noise_px_plain [OF pa] np_clip_def astype_uint8_def py_int_def)
  have mb: "rgb_of b a"
    unfolding b_def by (rule apply_noise_rgb) fact
  have wb: "width b = 100" "height b = 100"
    using ma mb by (simp_all add: rgb_of_def blue_image_def)
  have mask: "max (1 - sqrt 2 * 3 / 4) 0 = 0"
    using sqrt2_vignette by simp
  have pc: "getpixel c 0 0 = [0, 0, 0]"
    unfolding c_def
    by (simp add: vignette_px [OF pb] wb linspace_def mask np_clip_def astype_uint8_def py_int_def)
  have "getpixel d 0 0 = [171, 168, 161]"
    unfolding d_def
    by (simp add: fade_px [OF pc] np_clip_def astype_uint8_def py_int_def)
  with run show ?thesis by simp
qed

theorem process_out_of_range_unprocessed:
  "process plain_externals blue_image (PyInt 7) None = Inr blue_image
   \<and> process plain_externals blue_image (PyInt 6) None \<noteq> Inr blue_image
   \<and> process plain_externals rgba_image (PyInt (- 3)) None = Inr rgba_image
   \<and> process plain_externals rgba_image (PyInt 0) None \<noteq> Inr rgba_image"
proof -
  have r: "resolve_params (PyInt 7) None = Inr None" "resolve_params (PyInt (- 3)) None = Inr None"
    "resolve_params (PyInt 6) None = Inr (Some (visual epoch_6))"
    "resolve_params (PyInt 0) None = Inr (Some (visual epoch_0))"
    by (simp_all add: resolve_params_int get_epoch_params_def EPOCHS_lookup)
  have "getpixel (run_stages plain_externals (visual epoch_6) blue_image) 0 0
      \<noteq> getpixel blue_image 0 0"
    by (simp only: blue_level_6_corner) (simp add: blue_image_def)
  then have six: "run_stages plain_externals (visual epoch_6) blue_image \<noteq> blue_image"
    by auto
  have "mode (run_stages plain_externals (visual epoch_0) rgba_image) = RGB"
    using run_stages_rgb [OF plain_externals_contract, of "visual epoch_0" rgba_image]
    by (simp add: rgb_of_def)
  then have zero: "run_stages plain_externals (visual epoch_0) rgba_image \<noteq> rgba_image"
    by (auto simp: rgba_image_def)
  show ?thesis
    using six zero by (simp add: process_def r)
qed

lemma process_clamps_fractions:
  assumes "py_mod1 x \<noteq> 0"
  shows "6 < x \<Longrightarrow> process ext im (PyFloat x) None = process ext im (PyInt 6) None"
    and "x < 0 \<Longrightarrow> process ext im (PyFloat x) None = process ext im (PyInt 0) None"
proof -
  show "process ext im (PyFloat x) None = process ext im (PyInt 6) None" if "6 < x"
    using that assms
    by (simp add: process_def resolve_params_def interpolate_above get_epoch_params_def
        EPOCHS_lookup)
  show "process ext im (PyFloat x) None = process ext im (PyInt 0) None" if "x < 0"
    using that assms
    by (simp add: process_def resolve_params_def interpolate_below get_epoch_params_def
        EPOCHS_lookup)
qed

text \<open>
  C7. Only a float level with a fraction is clamped: above 6 \<open>process\<close> behaves as at
  level 6 and below 0 as at level 0, because \<open>interpolate_epochs\<close> clamps. A whole
  level outside 0..6, as an int or as a float, finds no parameters, and \<open>process\<close>
  returns the input image as it is; \<open>process\<close> has no fallback to epoch 0 (the
  soundscape generator has one).
\<close>

theorem process_out_of_range_levels:
  "(py_mod1 x \<noteq> 0 \<and> 6 < x \<longrightarrow>
      process ext im (PyFloat x) None = process ext im (PyInt 6) None)
   \<and> (py_mod1 x \<noteq> 0 \<and> x < 0 \<longrightarrow>
      process ext im (PyFloat x) None = process ext im (PyInt 0) None)
   \<and> (k < 0 \<or> 6 < k \<longrightarrow>
      process ext im (PyInt k) None = Inr im
      \<and> process ext im (PyFloat (of_int k)) None = Inr im)"
proof -
  have "process ext im (PyInt k) None = Inr im
      \<and> process ext im (PyFloat (of_int k)) None = Inr im" if "k < 0 \<or> 6 < k"
  proof -
    from that have "\<not> resolves (PyInt k) None" "\<not> resolves (PyFloat (of_int k)) None"
      by (auto simp: resolves_def py_mod1_def)
    then show ?thesis by (simp add: process_unresolved)
  qed
  then show ?thesis
    using process_clamps_fractions [of x ext im] by blast
qed

theorem process_out_of_range_levels_witness:
  "process plain_externals blue_image (PyFloat 7.5) None
     = process plain_externals blue_image (PyInt 6) None
   \<and> process plain_externals blue_image (PyFloat (- 0.5)) None
     = process plain_externals blue_image (PyInt 0) None
   \<and> process plain_externals blue_image (PyInt 7) None = Inr blue_image
   \<and> process plain_externals blue_image (PyFloat 7) None = Inr blue_image"
proof -
  have "py_mod1 7.5 \<noteq> 0" "py_mod1 (- 0.5) \<noteq> 0"
    by (simp_all add: py_mod1_def)
  then show ?thesis
    using process_out_of_range_levels [of "7.5" plain_externals blue_image 7]
      process_out_of_range_levels [of "- 0.5" plain_externals blue_image 7]
    by simp
qed



section \<open>The soundscape generator\<close>

lemma generate_in_range:
  assumes "EPOCHS k = Some e"
  shows "generate g k =
     Inr \<lparr>epoch_level = level e,
          epoch_name = (if language g = ''fr'' then name e else name_en e),
          period = Epoch.period e,
          elements = (if language g = ''fr'' then soundscape e else soundscape_en e),
          audio_prompt = enhance_prompt (Epoch.audio_prompt e) k,
          intensity = max 0.1 (1 - of_int k * 0.12),
          clarity = max 0.1 (1 - of_int k * 0.15)\<rparr>"
  using assms by (simp add: generate_def Let_def)

lemma generate_fallback:
  assumes "EPOCHS k = None"
  shows "generate g k =
     Inr \<lparr>epoch_level = level epoch_0,
          epoch_name = (if language g = ''fr'' then name epoch_0 else name_en epoch_0),
          period = Epoch.period epoch_0,
          elements = (if language g = ''fr'' then soundscape epoch_0 else soundscape_en epoch_0),
          audio_prompt = enhance_prompt (Epoch.audio_prompt epoch_0) k,
          intensity = max 0.1 (1 - of_int k * 0.12),
          clarity = max 0.1 (1 - of_int k * 0.15)\<rparr>"
proof -
  have "EPOCHS 0 = Some epoch_0" by (simp add: EPOCHS_lookup)
  then show ?thesis
    using assms by (simp add: generate_def subscript_def Let_def)
qed

lemma generate_total:
  "\<exists>e. generate g k =
     Inr \<lparr>epoch_level = level e,
          epoch_name = (if language g = ''fr'' then name e else name_en e),
          period = Epoch.period e,
          elements = (if language g = ''fr'' then soundscape e else soundscape_en e),
          audio_prompt = enhance_prompt (Epoch.audio_prompt e) k,
          intensity = max 0.1 (1 - of_int k * 0.12),
          clarity = max 0.1 (1 - of_int k * 0.15)\<rparr>
       \<and> (case EPOCHS k of Some e' \<Rightarrow> e = e' | None \<Rightarrow> e = epoch_0)"
  using generate_in_range [of k _ g] generate_fallback [of k g]
  by (cases "EPOCHS k") auto

lemma enhance_prompt_hints:
  "\<exists>quality. enhance_prompt base k =
     base @ ''. Audio quality: '' @ quality @ ''. Processing: reverb ''
       @ str_int (min (k * 15) 80) @ ''%, low-pass filter at ''
       @ str_int (max (20000 - k * 3000) 2000) @ ''Hz, slight tape hiss and analog warmth.''"
  by (simp add: enhance_prompt_def Let_def)

lemma digit_value:
  assumes "d < 10"
  shows "of_char (digit_char d) - 48 = d"
proof -
  from assms have "d = 0 \<or> d = 1 \<or> d = 2 \<or> d = 3 \<or> d = 4 \<or> d = 5 \<or> d = 6 \<or> d = 7
      \<or> d = 8 \<or> d = 9"
    by arith
  then show ?thesis
    by (auto simp: digit_char_def)
qed

lemma nat_of_digits_snoc:
  "nat_of_digits (ds @ [c]) = 10 * nat_of_digits ds + (of_char c - 48)"
  by (simp add: nat_of_digits_def)

lemma nat_of_digits_str_nat: "nat_of_digits (str_nat n) = n"
proof (induction n rule: str_nat.induct)
  case (1 n)
  show ?case
  proof (cases "n < 10")
    case True
    then show ?thesis
      by (subst str_nat.simps) (simp add: nat_of_digits_def digit_value)
  next
    case False
    then have "nat_of_digits (str_nat n) = 10 * (n div 10) + n mod 10"
      using "1.IH" by (subst str_nat.simps) (simp add: nat_of_digits_snoc digit_value)
    then show ?thesis by simp
  qed
qed

lemma nat_of_digits_str_int: "0 \<le> i \<Longrightarrow> int (nat_of_digits (str_int i)) = i"
  by (simp add: str_int_def nat_of_digits_str_nat)

lemma str_int_examples:
  "str_int 45 = ''45''" "str_int 11000 = ''11000''" "str_int 80 = ''80''" "str_int 2000 = ''2000''"
  by (simp_all add: str_int_def str_nat.simps digit_char_def)

lemma scalars_mono:
  fixes k k' :: int
  assumes "k \<le> k'"
  shows "max 0.1 (1 - real_of_int k' * 0.12) \<le> max 0.1 (1 - real_of_int k * 0.12)"
    and "max 0.1 (1 - real_of_int k' * 0.15) \<le> max 0.1 (1 - real_of_int k * 0.15)"
proof -
  from assms have "real_of_int k \<le> real_of_int k'" by simp
  then show "max 0.1 (1 - real_of_int k' * 0.12) \<le> max 0.1 (1 - real_of_int k * 0.12)"
    "max 0.1 (1 - real_of_int k' * 0.15) \<le> max 0.1 (1 - real_of_int k * 0.15)"
    by (simp_all add: max_def)
qed

lemma scalars_floor:
  fixes k :: int
  shows "8 \<le> k \<Longrightarrow> max 0.1 (1 - real_of_int k * 0.12) = 0.1"
    and "6 \<le> k \<Longrightarrow> max 0.1 (1 - real_of_int k * 0.15) = 0.1"
proof -
  show "max 0.1 (1 - real_of_int k * 0.12) = 0.1" if "8 \<le> k"
  proof -
    from that have "8 \<le> real_of_int k" by simp
    then show ?thesis by (simp add: max_def)
  qed
  show "max 0.1 (1 - real_of_int k * 0.15) = 0.1" if "6 \<le> k"
  proof -
    from that have "6 \<le> real_of_int k" by simp
    then show ?thesis by (simp add: max_def)
  qed
qed

text \<open>
  C9. At every integer level (0..6 included) \<open>generate\<close> returns a soundscape with
  intensity max(0.1, 1 - level * 0.12) and clarity max(0.1, 1 - level * 0.15); its prompt
  is the epoch's base prompt followed by a quality descriptor and the text "reverb N%,
  low-pass filter at MHz" with N = min(level * 15, 80) and M = max(20000 - level * 3000,
  2000) in decimal digits that read back as those numbers. Intensity and clarity do not
  increase when the level grows, are never below 0.1, and stay at 0.1 from the level on
  where the formula reaches it.
\<close>

theorem generate_scalars_and_hints:
  "\<exists>s s' e quality.
     generate g k = Inr s \<and> generate g k' = Inr s'
     \<and> intensity s = max 0.1 (1 - of_int k * 0.12)
     \<and> clarity s = max 0.1 (1 - of_int k * 0.15)
     \<and> (0 \<le> k \<and> k \<le> 6 \<longrightarrow> EPOCHS k = Some e)
     \<and> audio_prompt s =
         Epoch.audio_prompt e @ ''. Audio quality: '' @ quality @ ''. Processing: reverb ''
           @ str_int (min (k * 15) 80) @ ''%, low-pass filter at ''
           @ str_int (max (20000 - k * 3000) 2000) @ ''Hz, slight tape hiss and analog warmth.''
     \<and> (0 \<le> k \<longrightarrow> int (nat_of_digits (str_int (min (k * 15) 80))) = min (k * 15) 80)
     \<and> int (nat_of_digits (str_int (max (20000 - k * 3000) 2000))) = max (20000 - k * 3000) 2000
     \<and> (k \<le> k' \<longrightarrow> intensity s' \<le> intensity s \<and> clarity s' \<le> clarity s)
     \<and> 0.1 \<le> intensity s \<and> 0.1 \<le> clarity s
     \<and> (8 \<le> k \<longrightarrow> intensity s = 0.1) \<and> (6 \<le> k \<longrightarrow> clarity s = 0.1)"
proof -
  obtain e s where s: "generate g k = Inr s"
    and si: "intensity s = max 0.1 (1 - of_int k * 0.12)"
    and sc: "clarity s = max 0.1 (1 - of_int k * 0.15)"
    and sp: "audio_prompt s = enhance_prompt (Epoch.audio_prompt e) k"
    and e: "case EPOCHS k of Some e' \<Rightarrow> e = e' | None \<Rightarrow> e = epoch_0"
    using generate_total [of g k] by auto
  obtain s' where s': "generate g k' = Inr s'"
    and si': "intensity s' = max 0.1 (1 - of_int k' * 0.12)"
    and sc': "clarity s' = max 0.1 (1 - of_int k' * 0.15)"
    using generate_total [of g k'] by auto
  obtain quality where q: "enhance_prompt (Epoch.audio_prompt e) k =
      Epoch.audio_prompt e @ ''. Audio quality: '' @ quality @ ''. Processing: reverb ''
        @ str_int (min (k * 15) 80) @ ''%, low-pass filter at ''
        @ str_int (max (20000 - k * 3000) 2000) @ ''Hz, slight tape hiss and analog warmth.''"
    using enhance_prompt_hints by blast
  have ek: "EPOCHS k = Some e" if "0 \<le> k \<and> k \<le> 6"
    using that e EPOCHS_None_iff [of k] by (cases "EPOCHS k") auto
  have d1: "int (nat_of_digits (str_int (min (k * 15) 80))) = min (k * 15) 80" if "0 \<le> k"
    using that by (intro nat_of_digits_str_int) simp
  have d2: "int (nat_of_digits (str_int (max (20000 - k * 3000) 2000)))
      = max (20000 - k * 3000) 2000"
    by (intro nat_of_digits_str_int) simp
  have m: "intensity s' \<le> intensity s \<and> clarity s' \<le> clarity s" if "k \<le> k'"
    using scalars_mono [OF that] by (simp only: si sc si' sc')
  have lb: "0.1 \<le> intensity s" "0.1 \<le> clarity s"
    by (simp_all add: si sc)
  have fl: "8 \<le> k \<longrightarrow> intensity s = 0.1" "6 \<le> k \<longrightarrow> clarity s = 0.1"
    using scalars_floor [of k] by (simp_all only: si sc) blast+
  show ?thesis
    using s s' si sc sp q ek d1 d2 m lb fl
    by (intro exI [of _ s] exI [of _ s'] exI [of _ e] exI [of _ quality])
      (simp only: simp_thms; blast)
qed

theorem generate_scalars_and_hints_witness:
  "\<exists>s s'. generate en_generator 3 = Inr s \<and> generate en_generator 6 = Inr s'
     \<and> intensity s = 0.64 \<and> clarity s = 0.55
     \<and> intensity s' \<le> intensity s \<and> clarity s' \<le> clarity s
     \<and> (\<exists>quality. audio_prompt s =
           Epoch.audio_prompt epoch_3 @ ''. Audio quality: '' @ quality
             @ ''. Processing: reverb 45%, low-pass filter at 11000Hz, slight tape hiss and analog warmth.'')"
proof -
  have e3: "EPOCHS 3 = Some epoch_3" by (simp add: EPOCHS_lookup)
  from generate_scalars_and_hints [of en_generator 3 6]
  obtain s s' e quality where
    "generate en_generator 3 = Inr s" "generate en_generator 6 = Inr s'"
    "intensity s = max 0.1 (1 - of_int 3 * 0.12)"
    "clarity s = max 0.1 (1 - of_int 3 * 0.15)"
    "EPOCHS 3 = Some e"
    "audio_prompt s =
         Epoch.audio_prompt e @ ''. Audio quality: '' @ quality @ ''. Processing: reverb ''
           @ str_int (min (3 * 15) 80) @ ''%, low-pass filter at ''
           @ str_int (max (20000 - 3 * 3000) 2000) @ ''Hz, slight tape hiss and analog warmth.''"
    "intensity s' \<le> intensity s" "clarity s' \<le> clarity s"
    by auto
  then show ?thesis
    using e3 by (intro exI [of _ s] exI [of _ s']) (auto simp: str_int_examples)
qed

text \<open>
  C10. At an integer level outside 0..6 \<open>generate\<close> does not raise: it falls back to
  epoch 0 for the level, name, period and elements it reports, while intensity and
  clarity are still computed from the level that was asked for. So level 10 reports epoch
  0 with intensity 0.1, and level -1 reports epoch 0 with intensity 1.12 and clarity
  1.15, both above 1.
\<close>

theorem generate_out_of_range:
  "(k < 0 \<or> 6 < k \<longrightarrow>
      (\<exists>s. generate g k = Inr s
          \<and> epoch_level s = 0
          \<and> epoch_name s = (if language g = ''fr'' then name epoch_0 else name_en epoch_0)
          \<and> period s = Epoch.period epoch_0
          \<and> elements s = (if language g = ''fr'' then soundscape epoch_0 else soundscape_en epoch_0)
          \<and> intensity s = max 0.1 (1 - of_int k * 0.12)
          \<and> clarity s = max 0.1 (1 - of_int k * 0.15)))
   \<and> (\<exists>s. generate g 10 = Inr s \<and> epoch_level s = 0 \<and> intensity s = 0.1)
   \<and> (\<exists>s. generate g (- 1) = Inr s \<and> epoch_level s = 0
          \<and> intensity s = 1.12 \<and> clarity s = 1.15 \<and> 1 < intensity s \<and> 1 < clarity s)"
proof -
  have l0: "level epoch_0 = 0" by (simp add: epoch_0_def)
  have a: "\<exists>s. generate g k = Inr s
          \<and> epoch_level s = 0
          \<and> epoch_name s = (if language g = ''fr'' then name epoch_0 else name_en epoch_0)
          \<and> period s = Epoch.period epoch_0
          \<and> elements s = (if language g = ''fr'' then soundscape epoch_0 else soundscape_en epoch_0)
          \<and> intensity s = max 0.1 (1 - of_int k * 0.12)
          \<and> clarity s = max 0.1 (1 - of_int k * 0.15)" if "k < 0 \<or> 6 < k" for k
  proof -
    from that have "EPOCHS k = None" using EPOCHS_None_iff [of k] by auto
    from generate_fallback [OF this, of g] show ?thesis by (simp add: l0)
  qed
  have b: "\<exists>s. generate g 10 = Inr s \<and> epoch_level s = 0 \<and> intensity s = 0.1"
    using a [of 10] by auto
  have c: "\<exists>s. generate g (- 1) = Inr s \<and> epoch_level s = 0
          \<and> intensity s = 1.12 \<and> clarity s = 1.15 \<and> 1 < intensity s \<and> 1 < clarity s"
    using a [of "- 1"] by auto
  show ?thesis using a [of k] b c by blast
qed

theorem generate_out_of_range_witness:
  "\<exists>s. generate fr_generator 42 = Inr s \<and> epoch_level s = 0 \<and> epoch_name s = name epoch_0
      \<and> intensity s = 0.1 \<and> clarity s = 0.1"
  using generate_out_of_range [of 42 fr_generator] by (auto simp: fr_generator_def)

text \<open>
  C8. At every integer level (0..6 included) the dict \<open>to_dict\<close> builds has exactly the
  keys epoch_level (an int), epoch_name, period (strings), elements (a list of strings),
  audio_prompt (a string), intensity and clarity (reals), in this order, holding the
  fields of the generated soundscape.
\<close>

theorem to_dict_fields:
  "\<exists>s. generate g k = Inr s
     \<and> to_dict g k =
         Inr [(''epoch_level'', IntV (epoch_level s)),
              (''epoch_name'', StrV (epoch_name s)),
              (''period'', StrV (period s)),
              (''elements'', StrListV (elements s)),
              (''audio_prompt'', StrV (audio_prompt s)),
              (''intensity'', FloatV (intensity s)),
              (''clarity'', FloatV (clarity s))]
     \<and> map_sum id (map fst) (to_dict g k) =
         Inr [''epoch_level'', ''epoch_name'', ''period'', ''elements'', ''audio_prompt'',
              ''intensity'', ''clarity'']"
proof -
  obtain s where "generate g k = Inr s"
    using generate_total [of g k] by blast
  then show ?thesis by (simp add: to_dict_def)
qed

theorem to_dict_fields_witness:
  "map_sum id (map fst) (to_dict en_generator 3) =
     Inr [''epoch_level'', ''epoch_name'', ''period'', ''elements'', ''audio_prompt'',
          ''intensity'', ''clarity'']"
  using to_dict_fields [of en_generator 3] by blast

theorem to_dict_not_spec_names:
  "map_sum id (map fst) (to_dict en_generator 3)
     \<noteq> Inr [''level'', ''name'', ''period'', ''elements'', ''prompt'', ''intensity'', ''clarity'']
   \<and> map_sum id (\<lambda>d. map_of d ''level'') (to_dict en_generator 3) = Inr None
   \<and> map_sum id (\<lambda>d. map_of d ''name'') (to_dict en_generator 3) = Inr None
   \<and> map_sum id (\<lambda>d. map_of d ''prompt'') (to_dict en_generator 3) = Inr None"
proof -
  have "EPOCHS 3 = Some epoch_3" by (simp add: EPOCHS_lookup)
  from generate_in_range [OF this, of en_generator] show ?thesis
    by (simp add: to_dict_def)
qed

end
